theory Spec2Isabelle
  imports Main "HOL-Library.Word"
begin

unbundle bit_operations_syntax

section \<open>Bytes, ABI words and the library primitives the scripts call\<close>

text \<open>
  The scripts handle hex strings (\<^verbatim>\<open>0x...\<close>) and \<^verbatim>\<open>Uint8Array\<close>s; both are byte
  sequences and are modelled as lists of 8-bit words. Addresses are 20-byte values,
  \<^verbatim>\<open>bytes32\<close> and \<^verbatim>\<open>uint256\<close> are 256-bit values, and the narrower unsigned
  integers of the contract ABIs are words of their width, so that the range checks of
  the ABI encoder hold by typing.
\<close>

type_synonym byte = "8 word"
type_synonym bytes = "byte list"
type_synonym address = "160 word"
type_synonym bytes32 = "256 word"
type_synonym uint256 = "256 word"

text \<open>\<^verbatim>\<open>toBytes(str)\<close> of a string that is not hex: its character codes.\<close>

definition toBytes_string :: "string \<Rightarrow> bytes" where
  "toBytes_string s = map of_char s"

text \<open>A 256-bit value as the 32 bytes of one ABI word, most significant byte first.\<close>

definition word32 :: "256 word \<Rightarrow> bytes" where
  "word32 w = map (\<lambda>i. ucast (drop_bit (8 * (31 - i)) w)) [0..<32]"

text \<open>
  \<^verbatim>\<open>encodeAbiParameters\<close> for the static types the scripts use. Each value takes one
  32-byte word: \<^verbatim>\<open>bytes32\<close> as it is, an address and every unsigned integer
  left-padded with zero bytes.
\<close>

datatype abi_value =
    Bytes32 bytes32
  | Address address
  | Uint256 uint256
  | Uint96 "96 word"
  | Uint32 "32 word"
  | Uint16 "16 word"
  | Uint8 "8 word"

fun encodeParam :: "abi_value \<Rightarrow> bytes" where
  "encodeParam (Bytes32 w) = word32 w"
| "encodeParam (Address a) = word32 (ucast a)"
| "encodeParam (Uint256 n) = word32 n"
| "encodeParam (Uint96 n) = word32 (ucast n)"
| "encodeParam (Uint32 n) = word32 (ucast n)"
| "encodeParam (Uint16 n) = word32 (ucast n)"
| "encodeParam (Uint8 n) = word32 (ucast n)"

definition encodeAbiParameters :: "abi_value list \<Rightarrow> bytes" where
  "encodeAbiParameters vs = concat (map encodeParam vs)"

definition zeroAddress :: address where
  "zeroAddress = 0"

section \<open>Digest Engine: agent-treasury-propose.mjs\<close>

text \<open>
  \<^verbatim>\<open>keccak256\<close> comes from the viem library and is a parameter \<open>keccak256\<close> of
  every definition that hashes: a function from byte sequences to 32-byte digests.
\<close>

definition SAFE_TX_TYPE :: string where
  "SAFE_TX_TYPE = ''SafeTx(address to,uint256 value,bytes data,uint8 operation,uint256 safeTxGas,uint256 baseGas,uint256 gasPrice,address gasToken,address refundReceiver,uint256 nonce)''"

definition SAFE_TX_TYPEHASH :: "(bytes \<Rightarrow> bytes32) \<Rightarrow> bytes32" where
  "SAFE_TX_TYPEHASH keccak256 = keccak256 (toBytes_string SAFE_TX_TYPE)"

text \<open>The object \<^verbatim>\<open>{ to, value, data, operation, nonce }\<close> built by \<^verbatim>\<open>cmdPropose\<close>.\<close>

record txData =
  to :: address
  val :: uint256
  data :: bytes
  operation :: "8 word"
  nonce :: uint256

text \<open>
  \<^verbatim>\<open>computeSafeTxHash(domainSeparator, txData)\<close>. viem's \<^verbatim>\<open>concat\<close> of hex strings
  is the concatenation of their bytes.
\<close>

definition computeSafeTxHash :: "(bytes \<Rightarrow> bytes32) \<Rightarrow> bytes32 \<Rightarrow> txData \<Rightarrow> bytes32" where
  "computeSafeTxHash keccak256 domainSeparator tx =
     keccak256
       (concat
          [[0x19, 0x01],
           word32 domainSeparator,
           word32
             (keccak256
                (encodeAbiParameters
                   [Bytes32 (SAFE_TX_TYPEHASH keccak256),
                    Address (to tx),
                    Uint256 (val tx),
                    Bytes32 (keccak256 (data tx)),
                    Uint8 (operation tx),
                    Uint256 0,
                    Uint256 0,
                    Uint256 0,
                    Address zeroAddress,
                    Address zeroAddress,
                    Uint256 (nonce tx)]))])"

text \<open>
  Names for the two byte sequences that \<open>computeSafeTxHash\<close> hashes: the encoded
  \<^verbatim>\<open>SafeTx\<close> struct (argument of the inner hash) and the prefixed sequence (argument
  of the outer hash).
\<close>

definition safeTxStruct :: "(bytes \<Rightarrow> bytes32) \<Rightarrow> txData \<Rightarrow> bytes" where
  "safeTxStruct keccak256 tx =
     encodeAbiParameters
       [Bytes32 (SAFE_TX_TYPEHASH keccak256), Address (to tx), Uint256 (val tx),
        Bytes32 (keccak256 (data tx)), Uint8 (operation tx), Uint256 0, Uint256 0, Uint256 0,
        Address zeroAddress, Address zeroAddress, Uint256 (nonce tx)]"

definition safeTxPreimage :: "(bytes \<Rightarrow> bytes32) \<Rightarrow> bytes32 \<Rightarrow> txData \<Rightarrow> bytes" where
  "safeTxPreimage keccak256 domainSeparator tx =
     [0x19, 0x01] @ word32 domainSeparator @ word32 (keccak256 (safeTxStruct keccak256 tx))"

section \<open>Signature Codec: agent-treasury-propose.mjs\<close>

text \<open>
  \<^verbatim>\<open>arr[i] += k\<close> on a \<^verbatim>\<open>Uint8Array\<close>. Inside the array the element is read, \<open>k\<close> is
  added and the sum is stored modulo 256. Outside the array the read gives
  \<^verbatim>\<open>undefined\<close>, the sum is \<^verbatim>\<open>NaN\<close>, and a typed array ignores a store to an index
  it does not have: nothing is raised and the array keeps its length and contents.
\<close>

definition uint8_add_assign :: "bytes \<Rightarrow> nat \<Rightarrow> byte \<Rightarrow> bytes" where
  "uint8_add_assign arr i k = (if i < length arr then arr[i := arr ! i + k] else arr)"

text \<open>
  The agent's account: its address and \<^verbatim>\<open>account.signMessage({ message: { raw } })\<close>,
  the key-custody collaborator, which returns the raw signature bytes.
\<close>

record account =
  address_of :: address
  signMessage :: "bytes \<Rightarrow> bytes"

datatype codec_error = EncodingError

text \<open>
  \<^verbatim>\<open>signSafeTxHash(account, safeTxHash)\<close>. The function has no \<^verbatim>\<open>throw\<close> and no check of
  the signature's length, so every path returns (\<open>Inr\<close>).
\<close>

definition signSafeTxHash :: "account \<Rightarrow> bytes \<Rightarrow> codec_error + bytes" where
  "signSafeTxHash account safeTxHash =
     (let signature = signMessage account safeTxHash;
          sigBytes = uint8_add_assign signature 64 4
      in Inr sigBytes)"

text \<open>
  \<^verbatim>\<open>cmdPropose\<close>: the body posted to the Safe Transaction Service (the transaction, its
  hash, the sender and the signature; the fee fields of the body are the constants
  \<^verbatim>\<open>"0"\<close> and \<^verbatim>\<open>zeroAddress\<close>), from the nonce and the domain separator read from the
  chain. \<^verbatim>\<open>cmdConfirm\<close>: the signature posted for a hash given on the command line.
\<close>

record proposal =
  p_tx :: txData
  contractTransactionHash :: bytes32
  sender :: address
  signature :: bytes



section \<open>Execution Sequencer: agent-treasury-configure.mjs\<close>

text \<open>The script's own copy of the type hash.\<close>

definition SAFE_TX_TYPE_configure :: string where
  "SAFE_TX_TYPE_configure = ''SafeTx(address to,uint256 value,bytes data,uint8 operation,uint256 safeTxGas,uint256 baseGas,uint256 gasPrice,address gasToken,address refundReceiver,uint256 nonce)''"

definition SAFE_TX_TYPEHASH_configure :: "(bytes \<Rightarrow> bytes32) \<Rightarrow> bytes32" where
  "SAFE_TX_TYPEHASH_configure keccak256 = keccak256 (toBytes_string SAFE_TX_TYPE_configure)"

definition MOR_TOKEN :: address where
  "MOR_TOKEN = 0x7431aDa8a591C955a994a21710752EF9b882b8e3"

text \<open>
  \<^verbatim>\<open>encodeFunctionData\<close>: the first four bytes of the hash of the function's signature,
  then the encoded arguments.
\<close>

definition encodeFunctionData :: "(bytes \<Rightarrow> bytes32) \<Rightarrow> string \<Rightarrow> abi_value list \<Rightarrow> bytes" where
  "encodeFunctionData keccak256 sig args =
     take 4 (word32 (keccak256 (toBytes_string sig))) @ encodeAbiParameters args"

text \<open>
  The ledger collaborator, over a chain state \<open>'s\<close> that the scripts never see. Reads are
  functions of the state and are taken to answer; a read that throws would end the run
  as any exception does, with nothing signed or submitted after it. \<open>getDelegates\<close> is
  the first page the script asks for. \<open>execTransaction\<close> is
  \<^verbatim>\<open>walletClient.writeContract\<close> followed by \<^verbatim>\<open>waitForTransactionReceipt\<close>: it gives
  the state after the attempt and the receipt's status, or \<open>None\<close> when one of the two
  calls throws.
\<close>

datatype receipt_status = success | reverted

record execTransaction_args =
  et_to :: address
  et_value :: uint256
  et_data :: bytes
  et_operation :: "8 word"
  et_safeTxGas :: uint256
  et_baseGas :: uint256
  et_gasPrice :: uint256
  et_gasToken :: address
  et_refundReceiver :: address
  et_signatures :: bytes

record 's ledger =
  getThreshold :: "'s \<Rightarrow> uint256"
  getOwners :: "'s \<Rightarrow> address list"
  isModuleEnabled :: "'s \<Rightarrow> address \<Rightarrow> bool"
  getDelegates :: "'s \<Rightarrow> address \<Rightarrow> address list"
  safe_nonce :: "'s \<Rightarrow> uint256"
  safe_domainSeparator :: "'s \<Rightarrow> bytes32"
  execTransaction :: "execTransaction_args \<Rightarrow> 's \<Rightarrow> receipt_status option \<times> 's"

text \<open>What a run does to the outside: digests handed to the signer, transactions submitted.\<close>

datatype event = Signed bytes | Submitted execTransaction_args

text \<open>
  \<^verbatim>\<open>execSafeTx\<close>: reads nonce and domain separator, computes the hash inline, signs it,
  adjusts \<open>v\<close> and submits. \<open>execSafeTx_hash\<close> is the inline hash expression.
\<close>

definition execSafeTx_hash ::
  "(bytes \<Rightarrow> bytes32) \<Rightarrow> bytes32 \<Rightarrow> address \<Rightarrow> bytes \<Rightarrow> 8 word \<Rightarrow> uint256 \<Rightarrow> bytes32" where
  "execSafeTx_hash keccak256 domainSep to_arg data_arg operation_arg nonce_read =
     keccak256
       (concat
          [[0x19, 0x01],
           word32 domainSep,
           word32
             (keccak256
                (encodeAbiParameters
                   [Bytes32 (SAFE_TX_TYPEHASH_configure keccak256),
                    Address to_arg,
                    Uint256 0,
                    Bytes32 (keccak256 data_arg),
                    Uint8 operation_arg,
                    Uint256 0,
                    Uint256 0,
                    Uint256 0,
                    Address zeroAddress,
                    Address zeroAddress,
                    Uint256 nonce_read]))])"

definition execSafeTx_args :: "address \<Rightarrow> bytes \<Rightarrow> 8 word \<Rightarrow> bytes \<Rightarrow> execTransaction_args" where
  "execSafeTx_args to_arg data_arg operation_arg adjustedSig =
     \<lparr>et_to = to_arg, et_value = 0, et_data = data_arg, et_operation = operation_arg,
      et_safeTxGas = 0, et_baseGas = 0, et_gasPrice = 0, et_gasToken = zeroAddress,
      et_refundReceiver = zeroAddress, et_signatures = adjustedSig\<rparr>"

definition execSafeTx ::
  "(bytes \<Rightarrow> bytes32) \<Rightarrow> 's ledger \<Rightarrow> account \<Rightarrow> address \<Rightarrow> bytes \<Rightarrow> 8 word \<Rightarrow> 's
     \<Rightarrow> receipt_status option \<times> event list \<times> 's" where
  "execSafeTx keccak256 L account to_arg data_arg operation_arg s =
     (let nonce_read = safe_nonce L s;
          domainSep = safe_domainSeparator L s;
          safeTxHash = execSafeTx_hash keccak256 domainSep to_arg data_arg operation_arg nonce_read;
          signature = signMessage account (word32 safeTxHash);
          sigBytes = uint8_add_assign signature 64 4;
          args = execSafeTx_args to_arg data_arg operation_arg sigBytes;
          (receipt, s') = execTransaction L args s
      in (receipt, [Signed (word32 safeTxHash), Submitted args], s'))"

text \<open>
  The script's configuration once the environment and the command line are read.
  \<open>agent_account\<close> is \<open>None\<close> when \<^verbatim>\<open>getPrivateKey\<close> cannot retrieve the key.
\<close>

record config =
  SAFE_ADDRESS :: "address option"
  agent_account :: "account option"
  ALLOWANCE_MODULE :: address
  MOR_DAILY_ALLOWANCE :: "96 word"
  ETH_DAILY_ALLOWANCE :: "96 word"
  RESET_MINUTES :: "16 word"
  dryRun :: bool

datatype exit_reason =
    NoSafeAddress
  | NoPrivateKey
  | ThresholdAboveOne
  | NotAnOwner
  | EnableModuleReverted
  | AddDelegateReverted

text \<open>
  How \<^verbatim>\<open>main\<close> ends: it returns (\<open>Completed\<close>, or \<open>DryRunShown\<close> under
  \<^verbatim>\<open>--dry-run\<close>), it calls \<^verbatim>\<open>process.exit(1)\<close> after an \<^verbatim>\<open>ERROR\<close> line, or an exception
  reaches \<^verbatim>\<open>main().catch\<close> (\<open>FatalException\<close>).
\<close>

datatype outcome = Completed | DryRunShown | ProcessExit exit_reason | FatalException

text \<open>The calldata of the four steps, as \<^verbatim>\<open>main\<close> builds them.\<close>

definition enableData :: "(bytes \<Rightarrow> bytes32) \<Rightarrow> config \<Rightarrow> bytes" where
  "enableData keccak256 cfg =
     encodeFunctionData keccak256 ''enableModule(address)'' [Address (ALLOWANCE_MODULE cfg)]"

definition addDelegateData :: "(bytes \<Rightarrow> bytes32) \<Rightarrow> address \<Rightarrow> bytes" where
  "addDelegateData keccak256 agentAddress =
     encodeFunctionData keccak256 ''addDelegate(address)'' [Address agentAddress]"

definition setMorData :: "(bytes \<Rightarrow> bytes32) \<Rightarrow> config \<Rightarrow> address \<Rightarrow> bytes" where
  "setMorData keccak256 cfg agentAddress =
     encodeFunctionData keccak256 ''setAllowance(address,address,uint96,uint16,uint32)''
       [Address agentAddress, Address MOR_TOKEN, Uint96 (MOR_DAILY_ALLOWANCE cfg),
        Uint16 (RESET_MINUTES cfg), Uint32 0]"

definition setEthData :: "(bytes \<Rightarrow> bytes32) \<Rightarrow> config \<Rightarrow> address \<Rightarrow> bytes" where
  "setEthData keccak256 cfg agentAddress =
     encodeFunctionData keccak256 ''setAllowance(address,address,uint96,uint16,uint32)''
       [Address agentAddress, Address zeroAddress, Uint96 (ETH_DAILY_ALLOWANCE cfg),
        Uint16 (RESET_MINUTES cfg), Uint32 0]"

definition then_events :: "event list \<Rightarrow> outcome \<times> event list \<times> 's \<Rightarrow> outcome \<times> event list \<times> 's" where
  "then_events ev r = (case r of (out, ev', s) \<Rightarrow> (out, ev @ ev', s))"

text \<open>TX 4: set the ETH allowance. The receipt's status is logged and nothing else.\<close>

definition configure_tx4 ::
  "(bytes \<Rightarrow> bytes32) \<Rightarrow> config \<Rightarrow> 's ledger \<Rightarrow> account \<Rightarrow> address \<Rightarrow> 's \<Rightarrow> outcome \<times> event list \<times> 's" where
  "configure_tx4 keccak256 cfg L account safeAddress s =
     (let (receipt, ev, s') =
            execSafeTx keccak256 L account (ALLOWANCE_MODULE cfg)
              (setEthData keccak256 cfg (address_of account)) 0 s
      in case receipt of
           None \<Rightarrow> (FatalException, ev, s')
         | Some status \<Rightarrow> (Completed, ev, s'))"

text \<open>TX 3: set the MOR allowance. The receipt's status is logged; TX 4 follows.\<close>

definition configure_tx3 ::
  "(bytes \<Rightarrow> bytes32) \<Rightarrow> config \<Rightarrow> 's ledger \<Rightarrow> account \<Rightarrow> address \<Rightarrow> 's \<Rightarrow> outcome \<times> event list \<times> 's" where
  "configure_tx3 keccak256 cfg L account safeAddress s =
     (let (receipt, ev, s') =
            execSafeTx keccak256 L account (ALLOWANCE_MODULE cfg)
              (setMorData keccak256 cfg (address_of account)) 0 s
      in case receipt of
           None \<Rightarrow> (FatalException, ev, s')
         | Some status \<Rightarrow> then_events ev (configure_tx4 keccak256 cfg L account safeAddress s'))"

text \<open>TX 2: add the agent as delegate unless \<^verbatim>\<open>getDelegates\<close> already lists it.\<close>

definition configure_tx2 ::
  "(bytes \<Rightarrow> bytes32) \<Rightarrow> config \<Rightarrow> 's ledger \<Rightarrow> account \<Rightarrow> address \<Rightarrow> 's \<Rightarrow> outcome \<times> event list \<times> 's" where
  "configure_tx2 keccak256 cfg L account safeAddress s =
     (let delegates = getDelegates L s safeAddress;
          alreadyDelegate = (address_of account \<in> set delegates)
      in if \<not> alreadyDelegate then
           (let (receipt, ev, s') =
                  execSafeTx keccak256 L account (ALLOWANCE_MODULE cfg)
                    (addDelegateData keccak256 (address_of account)) 0 s
            in case receipt of
                 None \<Rightarrow> (FatalException, ev, s')
               | Some status \<Rightarrow>
                   if status \<noteq> success then (ProcessExit AddDelegateReverted, ev, s')
                   else then_events ev (configure_tx3 keccak256 cfg L account safeAddress s'))
         else configure_tx3 keccak256 cfg L account safeAddress s)"

text \<open>TX 1: enable the module unless \<^verbatim>\<open>isModuleEnabled\<close> said it is enabled.\<close>

definition configure_tx1 ::
  "(bytes \<Rightarrow> bytes32) \<Rightarrow> config \<Rightarrow> 's ledger \<Rightarrow> account \<Rightarrow> address \<Rightarrow> bool \<Rightarrow> 's \<Rightarrow> outcome \<times> event list \<times> 's" where
  "configure_tx1 keccak256 cfg L account safeAddress moduleEnabled s =
     (if \<not> moduleEnabled then
        (let (receipt, ev, s') =
               execSafeTx keccak256 L account safeAddress (enableData keccak256 cfg) 0 s
         in case receipt of
              None \<Rightarrow> (FatalException, ev, s')
            | Some status \<Rightarrow>
                if status \<noteq> success then (ProcessExit EnableModuleReverted, ev, s')
                else then_events ev (configure_tx2 keccak256 cfg L account safeAddress s'))
      else configure_tx2 keccak256 cfg L account safeAddress s)"

text \<open>
  \<^verbatim>\<open>main\<close> of the configure script: the outcome, the events in order, and the chain
  state it leaves. The settle delays and the closing verification reads change nothing
  and are left out.
\<close>

definition configure_main ::
  "(bytes \<Rightarrow> bytes32) \<Rightarrow> config \<Rightarrow> 's ledger \<Rightarrow> 's \<Rightarrow> outcome \<times> event list \<times> 's" where
  "configure_main keccak256 cfg L s =
     (case SAFE_ADDRESS cfg of
        None \<Rightarrow> (ProcessExit NoSafeAddress, [], s)
      | Some safeAddress \<Rightarrow>
     (case agent_account cfg of
        None \<Rightarrow> (ProcessExit NoPrivateKey, [], s)
      | Some account \<Rightarrow>
     (let agentAddress = address_of account;
          threshold = getThreshold L s;
          owners = getOwners L s;
          moduleEnabled = isModuleEnabled L s (ALLOWANCE_MODULE cfg)
      in if 1 < threshold then (ProcessExit ThresholdAboveOne, [], s)
         else if \<not> (agentAddress \<in> set owners) then (ProcessExit NotAnOwner, [], s)
         else if dryRun cfg then (DryRunShown, [], s)
         else configure_tx1 keccak256 cfg L account safeAddress moduleEnabled s)))"

text \<open>The transactions a run submitted, in order.\<close>

fun submissions :: "event list \<Rightarrow> execTransaction_args list" where
  "submissions [] = []"
| "submissions (Signed h # es) = submissions es"
| "submissions (Submitted a # es) = a # submissions es"

section \<open>Notions for stating the properties of the Digest Engine\<close>

text \<open>The 20 bytes of an address, most significant byte first.\<close>

definition address_bytes :: "address \<Rightarrow> bytes" where
  "address_bytes a = map (\<lambda>i. ucast (drop_bit (8 * (19 - i)) a)) [0..<20]"

text \<open>
  \<open>no_collision keccak256 x y\<close>: the hash function does not map the two byte sequences
  \<open>x\<close> and \<open>y\<close> to one digest unless they are the same sequence.
\<close>

definition no_collision :: "(bytes \<Rightarrow> bytes32) \<Rightarrow> bytes \<Rightarrow> bytes \<Rightarrow> bool" where
  "no_collision keccak256 x y = (keccak256 x = keccak256 y \<longrightarrow> x = y)"

text \<open>A stand-in hash for concrete runs (the last byte of its input) and a transaction.\<close>

definition demo_keccak256 :: "bytes \<Rightarrow> bytes32" where
  "demo_keccak256 x = (if x = [] then 0 else ucast (last x))"

definition demo_tx :: "uint256 \<Rightarrow> txData" where
  "demo_tx n = \<lparr>to = 0x7431aDa8a591C955a994a21710752EF9b882b8e3, val = 0, data = [],
                operation = 0, nonce = n\<rparr>"

section \<open>Autonomous pulls: agent-treasury-refill.mjs\<close>

text \<open>
  The arguments of \<^verbatim>\<open>executeAllowanceTransfer\<close> and the tuple that
  \<^verbatim>\<open>getTokenAllowance\<close> returns, \<^verbatim>\<open>[amount, spent, resetTimeMin, lastResetMin, nonce]\<close>.
  The tuple's fields have the widths at which the allowance module stores them
  (\<^verbatim>\<open>uint96\<close> amounts, \<^verbatim>\<open>uint16\<close> interval, \<^verbatim>\<open>uint32\<close> minutes), so that
  \<^verbatim>\<open>Number(...)\<close> of a field is exact.
\<close>

record transfer_args =
  at_safe :: address
  at_token :: address
  at_to :: address
  at_amount :: "96 word"
  at_paymentToken :: address
  at_payment :: "96 word"
  at_delegate :: address
  at_signature :: bytes

record token_allowance =
  ta_amount :: "96 word"
  ta_spent :: "96 word"
  ta_resetTimeMin :: "16 word"
  ta_lastResetMin :: "32 word"
  ta_nonce :: "16 word"

text \<open>
  The ledger as the refill and the status script reach it. \<open>estimateGas\<close> is the gas
  estimation that \<^verbatim>\<open>walletClient.writeContract\<close> asks of the node before it signs and
  sends: the node runs the call on the state it knows and refuses a call that reverts
  there. \<open>executeAllowanceTransfer\<close> is the broadcast followed by
  \<^verbatim>\<open>waitForTransactionReceipt\<close>: the state after it and the receipt's status, or \<open>None\<close>
  when waiting for the receipt throws.
\<close>

record 's module_ledger =
  balanceOf_MOR :: "'s \<Rightarrow> address \<Rightarrow> uint256"
  getBalance :: "'s \<Rightarrow> address \<Rightarrow> uint256"
  getTokenAllowance :: "'s \<Rightarrow> address \<Rightarrow> address \<Rightarrow> address \<Rightarrow> token_allowance"
  estimateGas :: "transfer_args \<Rightarrow> 's \<Rightarrow> bool"
  executeAllowanceTransfer :: "transfer_args \<Rightarrow> 's \<Rightarrow> receipt_status option \<times> 's"

text \<open>
  The thresholds and refill amounts are the \<^verbatim>\<open>bigint\<close>s that \<^verbatim>\<open>parseEther\<close> gives for
  the configured strings: integers of any size and sign.
\<close>

record refill_config =
  r_SAFE_ADDRESS :: "address option"
  r_account :: "account option"
  r_ALLOWANCE_MODULE :: address
  MOR_LOW_THRESHOLD :: int
  MOR_REFILL_AMOUNT :: int
  ETH_LOW_THRESHOLD :: int
  ETH_REFILL_AMOUNT :: int

text \<open>
  What a refill branch does to the outside, and how it ends: \<^verbatim>\<open>balance OK\<close>, the
  \<^verbatim>\<open>refill failed\<close> line of the \<^verbatim>\<open>catch\<close>, or the \<^verbatim>\<open>SUCCESS\<close> or \<^verbatim>\<open>REVERTED\<close> line for
  a mined transaction.
\<close>

datatype refill_event = Estimated transfer_args | Broadcast transfer_args

datatype refill_result = BalanceOK | RefillFailed | RefillMined receipt_status

text \<open>The range of the ABI's \<^verbatim>\<open>uint96 amount\<close> and the arguments of one pull.\<close>

definition uint96_ok :: "int \<Rightarrow> bool" where
  "uint96_ok n \<longleftrightarrow> 0 \<le> n \<and> n < 2 ^ 96"

definition pull_args :: "address \<Rightarrow> address \<Rightarrow> address \<Rightarrow> int \<Rightarrow> transfer_args" where
  "pull_args safe hotWallet token refill_amount =
     \<lparr>at_safe = safe, at_token = token, at_to = hotWallet,
      at_amount = word_of_int refill_amount, at_paymentToken = zeroAddress, at_payment = 0,
      at_delegate = hotWallet, at_signature = []\<rparr>"

text \<open>
  One refill branch of \<^verbatim>\<open>main\<close>. When the balance is below the threshold the script
  calls \<^verbatim>\<open>writeContract\<close>, which encodes the call (an amount outside \<^verbatim>\<open>uint96\<close> throws),
  asks the node to estimate it (a refused estimation throws) and only then signs and
  broadcasts. Every exception lands in the \<^verbatim>\<open>catch\<close>, is logged, and \<^verbatim>\<open>main\<close> goes on;
  a reverted receipt is logged too. \<^verbatim>\<open>getTokenAllowance\<close> is in the script's ABI and is
  never called.
\<close>

definition refill_branch ::
  "'s module_ledger \<Rightarrow> address \<Rightarrow> address \<Rightarrow> address \<Rightarrow> int \<Rightarrow> int \<Rightarrow> int \<Rightarrow> 's
     \<Rightarrow> refill_result \<times> refill_event list \<times> 's" where
  "refill_branch L safe hotWallet token balance low_threshold refill_amount s =
     (if balance < low_threshold then
        (if \<not> uint96_ok refill_amount then (RefillFailed, [], s)
         else
           (let args = pull_args safe hotWallet token refill_amount
            in if \<not> estimateGas L args s then (RefillFailed, [Estimated args], s)
               else
                 (let (receipt, s') = executeAllowanceTransfer L args s
                  in (case receipt of
                        None \<Rightarrow> RefillFailed
                      | Some status \<Rightarrow> RefillMined status,
                      [Estimated args, Broadcast args], s'))))
      else (BalanceOK, [], s))"

text \<open>
  \<^verbatim>\<open>main\<close> of the refill script: how it ends, how the MOR and the ETH branch ended, the
  events in order and the chain state it leaves.
\<close>

definition refill_main ::
  "refill_config \<Rightarrow> 's module_ledger \<Rightarrow> 's
     \<Rightarrow> outcome \<times> refill_result list \<times> refill_event list \<times> 's" where
  "refill_main cfg L s =
     (case r_SAFE_ADDRESS cfg of
        None \<Rightarrow> (ProcessExit NoSafeAddress, [], [], s)
      | Some safe \<Rightarrow>
     (case r_account cfg of
        None \<Rightarrow> (ProcessExit NoPrivateKey, [], [], s)
      | Some account \<Rightarrow>
     (let hotWallet = address_of account;
          morBalance = uint (balanceOf_MOR L s hotWallet);
          ethBalance = uint (getBalance L s hotWallet);
          (mor, ev1, s1) = refill_branch L safe hotWallet MOR_TOKEN morBalance
                             (MOR_LOW_THRESHOLD cfg) (MOR_REFILL_AMOUNT cfg) s;
          (eth, ev2, s2) = refill_branch L safe hotWallet zeroAddress ethBalance
                             (ETH_LOW_THRESHOLD cfg) (ETH_REFILL_AMOUNT cfg) s1
      in (Completed, [mor, eth], ev1 @ ev2, s2))))"

text \<open>The transactions a refill run broadcast, in order.\<close>

fun broadcasts :: "refill_event list \<Rightarrow> transfer_args list" where
  "broadcasts [] = []"
| "broadcasts (Estimated a # es) = broadcasts es"
| "broadcasts (Broadcast a # es) = a # broadcasts es"

text \<open>
  The remaining allowance in the words of the specification (section 4.5):
  \<open>max(0, granted - spentThisPeriod)\<close>, with the spent amount taken as 0 once
  \<open>nowMinutes \<ge> lastResetMinutes + resetIntervalMinutes\<close>. No script computes it
  before a pull; it is here to state what the specification asks of the refill.
\<close>

definition spec_remaining :: "token_allowance \<Rightarrow> nat \<Rightarrow> nat" where
  "spec_remaining a nowMinutes =
     (let spentThisPeriod =
            (if unat (ta_lastResetMin a) + unat (ta_resetTimeMin a) \<le> nowMinutes then 0
             else unat (ta_spent a))
      in if unat (ta_amount a) < spentThisPeriod then 0
         else unat (ta_amount a) - spentThisPeriod)"

section \<open>State Reconciler: agent-treasury-status.mjs\<close>

datatype next_reset = NotYetUsed | ResetAvailableNow | ResetAt nat nat nat

record allowance_report =
  ar_limit :: nat
  ar_spent :: nat
  ar_remaining :: nat
  ar_overLimit :: bool
  ar_resetIntervalMin :: nat
  ar_lastResetMin :: nat
  ar_nextReset :: next_reset
  ar_nonce :: nat

text \<open>
  The body of the loop over \<^verbatim>\<open>["MOR", ...], ["ETH", ...]\<close> in \<^verbatim>\<open>main\<close>, for one tuple
  and the value \<open>now\<close> of \<^verbatim>\<open>Date.now()\<close> in milliseconds. \<open>None\<close> is the
  \<^verbatim>\<open>not configured\<close> line followed by \<^verbatim>\<open>continue\<close>. The amounts stay numbers
  (\<^verbatim>\<open>formatEther\<close> only prints them); \<open>ar_overLimit\<close> is the \<^verbatim>\<open>"0 (over limit)"\<close> text;
  \<open>ResetAt t h m\<close> carries the timestamp in milliseconds and the \<^verbatim>\<open>(in h m)\<close> parts.
\<close>

definition allowanceReport :: "token_allowance \<Rightarrow> nat \<Rightarrow> allowance_report option" where
  "allowanceReport allowance now =
     (let amount = unat (ta_amount allowance);
          spent = unat (ta_spent allowance);
          resetTimeMin = unat (ta_resetTimeMin allowance);
          lastResetMin = unat (ta_lastResetMin allowance);
          allowanceNonce = unat (ta_nonce allowance)
      in if amount = 0 then None
         else
           (let remaining = (if spent > amount then 0 else amount - spent);
                nextResetStr =
                  (if lastResetMin = 0 then NotYetUsed
                   else
                     (let nextResetTimestamp = (lastResetMin + resetTimeMin) * 60;
                          nextReset = nextResetTimestamp * 1000
                      in if nextReset \<le> now then ResetAvailableNow
                         else
                           (let diffMs = nextReset - now;
                                diffH = diffMs div 3600000;
                                diffM = (diffMs mod 3600000) div 60000
                            in ResetAt nextReset diffH diffM)))
            in Some \<lparr>ar_limit = amount, ar_spent = spent, ar_remaining = remaining,
                      ar_overLimit = (spent > amount), ar_resetIntervalMin = resetTimeMin,
                      ar_lastResetMin = lastResetMin, ar_nextReset = nextResetStr,
                      ar_nonce = allowanceNonce\<rparr>))"

text \<open>
  The status script reads the tuple of one delegate and token and reports it; it has no
  wallet client and submits nothing, so the chain state it returns is the one it read.
\<close>

definition status_allowance ::
  "'s module_ledger \<Rightarrow> address \<Rightarrow> address \<Rightarrow> address \<Rightarrow> nat \<Rightarrow> 's \<Rightarrow> allowance_report option \<times> 's" where
  "status_allowance L safeAddress delegate token now s =
     (allowanceReport (getTokenAllowance L s safeAddress delegate token) now, s)"

section \<open>Inputs for concrete runs\<close>


text \<open>Two signers: one returns 65 bytes with recovery byte 27, one returns 3 bytes.\<close>

definition demo_account :: account where
  "demo_account = \<lparr>address_of = 1, signMessage = (\<lambda>digest. replicate 64 0x11 @ [27])\<rparr>"

definition short_signer :: account where
  "short_signer = \<lparr>address_of = 1, signMessage = (\<lambda>digest. [1, 2, 3])\<rparr>"

definition demo_config :: config where
  "demo_config = \<lparr>SAFE_ADDRESS = Some 0x5afe, agent_account = Some demo_account,
     ALLOWANCE_MODULE = 0xCFbFaC74C26F8647cBDb8c5caf80BB5b32E43134,
     MOR_DAILY_ALLOWANCE = 50000000000000000000, ETH_DAILY_ALLOWANCE = 50000000000000000,
     RESET_MINUTES = 1440, dryRun = False\<rparr>"

text \<open>
  A ledger for concrete runs. Its state is the number of Safe transactions executed so
  far, which is also the Safe's nonce. The first executed transaction enables the
  module and the second registers the agent, as in the pipeline. A transaction the
  ledger rejects gets a reverted receipt and leaves the state as it was.
\<close>

definition demo_ledger :: "uint256 \<Rightarrow> (execTransaction_args \<Rightarrow> bool) \<Rightarrow> nat ledger" where
  "demo_ledger threshold rejects =
     \<lparr>getThreshold = (\<lambda>s. threshold),
      getOwners = (\<lambda>s. [2, 1]),
      isModuleEnabled = (\<lambda>s m. 1 \<le> s),
      getDelegates = (\<lambda>s safe. if 2 \<le> s then [1] else []),
      safe_nonce = (\<lambda>s. of_nat s),
      safe_domainSeparator = (\<lambda>s. 0),
      execTransaction = (\<lambda>args s. if rejects args then (Some reverted, s) else (Some success, Suc s))\<rparr>"

definition rejects_nothing :: "execTransaction_args \<Rightarrow> bool" where
  "rejects_nothing args = False"

text \<open>The module refuses to set an allowance for the MOR token.\<close>

definition rejects_mor :: "execTransaction_args \<Rightarrow> bool" where
  "rejects_mor args = (take 32 (drop 36 (et_data args)) = word32 (ucast MOR_TOKEN))"

text \<open>
  Two module ledgers for the refill. On both the hot wallet holds no MOR, the MOR
  allowance is 50 MOR granted and nothing spent, and a mined pull above what remains is
  reverted. The first node estimates on the chain's own state and refuses such a pull.
  The second node lags behind the chain and accepts every estimation.
\<close>

definition demo_allowance :: token_allowance where
  "demo_allowance = \<lparr>ta_amount = 50000000000000000000, ta_spent = 0, ta_resetTimeMin = 1440,
     ta_lastResetMin = 29000000, ta_nonce = 1\<rparr>"

definition demo_module_ledger :: "nat module_ledger" where
  "demo_module_ledger =
     \<lparr>balanceOf_MOR = (\<lambda>s a. 0),
      getBalance = (\<lambda>s a. 10000000000000000),
      getTokenAllowance = (\<lambda>s safe delegate token. demo_allowance),
      estimateGas =
        (\<lambda>args s. unat (at_amount args) \<le> unat (ta_amount demo_allowance) - unat (ta_spent demo_allowance)),
      executeAllowanceTransfer =
        (\<lambda>args s. if unat (at_amount args) > unat (ta_amount demo_allowance) - unat (ta_spent demo_allowance)
                   then (Some reverted, s) else (Some success, Suc s))\<rparr>"

definition lagging_module_ledger :: "nat module_ledger" where
  "lagging_module_ledger =
     \<lparr>balanceOf_MOR = (\<lambda>s a. 0),
      getBalance = (\<lambda>s a. 10000000000000000),
      getTokenAllowance = (\<lambda>s safe delegate token. demo_allowance),
      estimateGas = (\<lambda>args s. True),
      executeAllowanceTransfer =
        (\<lambda>args s. if unat (at_amount args) > unat (ta_amount demo_allowance) - unat (ta_spent demo_allowance)
                   then (Some reverted, s) else (Some success, Suc s))\<rparr>"

definition demo_refill_config :: refill_config where
  "demo_refill_config = \<lparr>r_SAFE_ADDRESS = Some 0x5afe, r_account = Some demo_account,
     r_ALLOWANCE_MODULE = 0xCFbFaC74C26F8647cBDb8c5caf80BB5b32E43134,
     MOR_LOW_THRESHOLD = 20000000000000000000, MOR_REFILL_AMOUNT = 60000000000000000000,
     ETH_LOW_THRESHOLD = 10000000000000000, ETH_REFILL_AMOUNT = 30000000000000000\<rparr>"

text \<open>The 60 MOR pull of that configuration.\<close>

definition demo_mor_pull :: transfer_args where
  "demo_mor_pull = pull_args 0x5afe 1 MOR_TOKEN 60000000000000000000"


text \<open>An allowance tuple with 45 of 50 units spent, for concrete status reports.\<close>

definition demo_spent_allowance :: token_allowance where
  "demo_spent_allowance = \<lparr>ta_amount = 50, ta_spent = 45, ta_resetTimeMin = 1440,
     ta_lastResetMin = 29000000, ta_nonce = 3\<rparr>"

section \<open>Facts about ABI words\<close>

lemma length_word32: "length (word32 w) = 32"
  by (simp add: word32_def)

lemma word32_zero: "word32 0 = replicate 32 0"
  by (simp add: word32_def map_replicate_const)

lemma length_encodeParam: "length (encodeParam v) = 32"
  by (cases v) (simp_all add: length_word32)

lemma word32_nth: "i < 32 \<Longrightarrow> word32 w ! i = ucast (drop_bit (8 * (31 - i)) w)"
  by (simp add: word32_def)

lemma word32_ucast_byte: "word32 (ucast (b::byte)) = replicate 31 0 @ [b]"
proof (rule nth_equalityI)
  show "length (word32 (ucast b)) = length (replicate 31 0 @ [b])"
    by (simp add: length_word32)
next
  fix i assume "i < length (word32 (ucast b))"
  then have i: "i < 32" by (simp add: length_word32)
  show "word32 (ucast b) ! i = (replicate 31 0 @ [b]) ! i"
  proof (cases "i < 31")
    case True
    then have "8 \<le> 8 * (31 - i)" by simp
    then have "(ucast (drop_bit (8 * (31 - i)) (ucast b :: 256 word)) :: byte) = 0"
      by (intro bit_word_eqI) (auto simp: bit_ucast_iff bit_drop_bit_eq dest: bit_imp_le_length)
    with True i show ?thesis by (simp add: word32_nth nth_append)
  next
    case False
    with i have "i = 31" by simp
    moreover have "(ucast (ucast b :: 256 word) :: byte) = b"
      by (intro bit_word_eqI) (auto simp: bit_ucast_iff)
    ultimately show ?thesis by (simp add: word32_nth nth_append)
  qed
qed

lemma word32_ucast_address: "word32 (ucast (a::address)) = replicate 12 0 @ address_bytes a"
proof (rule nth_equalityI)
  show "length (word32 (ucast a)) = length (replicate 12 0 @ address_bytes a)"
    by (simp add: length_word32 address_bytes_def)
next
  fix i assume "i < length (word32 (ucast a))"
  then have i: "i < 32" by (simp add: length_word32)
  show "word32 (ucast a) ! i = (replicate 12 0 @ address_bytes a) ! i"
  proof (cases "i < 12")
    case True
    then have "160 \<le> 8 * (31 - i)" by simp
    then have "(ucast (drop_bit (8 * (31 - i)) (ucast a :: 256 word)) :: byte) = 0"
      by (intro bit_word_eqI) (auto simp: bit_ucast_iff bit_drop_bit_eq dest: bit_imp_le_length)
    with True i show ?thesis by (simp add: word32_nth nth_append)
  next
    case False
    with i have j: "i - 12 < 20" "19 - (i - 12) = 31 - i" by simp_all
    have "(ucast (drop_bit (8 * (31 - i)) (ucast a :: 256 word)) :: byte)
        = ucast (drop_bit (8 * (31 - i)) a)"
      using i by (intro bit_word_eqI) (auto simp: bit_ucast_iff bit_drop_bit_eq)
    with False i j show ?thesis by (simp add: word32_nth nth_append address_bytes_def)
  qed
qed

section \<open>Digest Engine: the commitment's construction\<close>

text \<open>
  C1. For every transaction \<open>{to, value, data, operation, nonce}\<close> and every domain
  separator, \<open>computeSafeTxHash\<close> is the hash of the bytes \<open>0x19 0x01\<close>, the domain
  separator and the hash of a struct of eleven 32-byte words, in this order: the type
  hash, \<open>to\<close> left-padded with twelve zero bytes, \<open>value\<close>, the hash of \<open>data\<close> (never
  the payload itself), \<open>operation\<close> left-padded, three zero words for the fee fields,
  two zero words for the fee-routing addresses, and \<open>nonce\<close>.
\<close>

theorem computeSafeTxHash_construction:
  "computeSafeTxHash keccak256 domainSep tx =
     keccak256
       ([0x19, 0x01] @ word32 domainSep @
        word32
          (keccak256
             (word32 (keccak256 (toBytes_string SAFE_TX_TYPE)) @
              (replicate 12 0 @ address_bytes (to tx)) @
              word32 (val tx) @
              word32 (keccak256 (data tx)) @
              (replicate 31 0 @ [operation tx]) @
              replicate 32 0 @
              replicate 32 0 @
              replicate 32 0 @
              replicate 32 0 @
              replicate 32 0 @
              word32 (nonce tx))))"
  by (simp add: computeSafeTxHash_def encodeAbiParameters_def zeroAddress_def
        SAFE_TX_TYPEHASH_def word32_ucast_byte word32_ucast_address word32_zero)

section \<open>The two implementations of the commitment\<close>

text \<open>
  C10. The hash that \<open>execSafeTx\<close> of the configure script computes inline equals
  \<open>computeSafeTxHash\<close> of the propose script on the same domain separator, target,
  payload, operation and nonce, with the value 0.
\<close>

theorem execSafeTx_hash_eq_computeSafeTxHash:
  "execSafeTx_hash keccak256 domainSep to_arg data_arg operation_arg nonce_read =
   computeSafeTxHash keccak256 domainSep
     \<lparr>to = to_arg, val = 0, data = data_arg, operation = operation_arg, nonce = nonce_read\<rparr>"
  by (simp add: execSafeTx_hash_def computeSafeTxHash_def SAFE_TX_TYPEHASH_def
        SAFE_TX_TYPEHASH_configure_def SAFE_TX_TYPE_def SAFE_TX_TYPE_configure_def)

section \<open>The ABI encoding loses nothing\<close>

lemma word32_inj:
  assumes "word32 w = word32 w'"
  shows "w = w'"
proof (rule bit_word_eqI)
  fix n assume "n < LENGTH(256)"
  then have n: "n < 256" by simp
  let ?i = "31 - n div 8"
  have "word32 w ! ?i = word32 w' ! ?i" using assms by simp
  moreover have "31 - ?i = n div 8" using n by simp
  ultimately have "(ucast (drop_bit (8 * (n div 8)) w) :: byte) = ucast (drop_bit (8 * (n div 8)) w')"
    by (simp add: word32_nth)
  then have "bit (ucast (drop_bit (8 * (n div 8)) w) :: byte) (n mod 8)
           = bit (ucast (drop_bit (8 * (n div 8)) w') :: byte) (n mod 8)"
    by simp
  then show "bit w n = bit w' n"
    by (simp add: bit_ucast_iff bit_drop_bit_eq)
qed

lemma word32_eq_iff: "word32 w = word32 w' \<longleftrightarrow> w = w'"
  using word32_inj by blast

lemma ucast_address_eq_iff: "(ucast (a::address) :: 256 word) = ucast b \<longleftrightarrow> a = b"
proof
  assume "(ucast a :: 256 word) = ucast b"
  then have "(ucast (ucast a :: 256 word) :: address) = ucast (ucast b :: 256 word)" by simp
  then show "a = b" by (simp add: ucast_up_ucast_id is_up)
qed simp

lemma ucast_byte_eq_iff: "(ucast (a::byte) :: 256 word) = ucast b \<longleftrightarrow> a = b"
proof
  assume "(ucast a :: 256 word) = ucast b"
  then have "(ucast (ucast a :: 256 word) :: byte) = ucast (ucast b :: 256 word)" by simp
  then show "a = b" by (simp add: ucast_up_ucast_id is_up)
qed simp

lemma safeTxStruct_eq_iff:
  "safeTxStruct K tx = safeTxStruct K tx' \<longleftrightarrow>
     to tx = to tx' \<and> val tx = val tx' \<and> K (data tx) = K (data tx') \<and>
     operation tx = operation tx' \<and> nonce tx = nonce tx'"
  by (simp add: safeTxStruct_def encodeAbiParameters_def length_word32 word32_eq_iff
        ucast_address_eq_iff ucast_byte_eq_iff)

lemma safeTxPreimage_eq_iff:
  "safeTxPreimage K ds tx = safeTxPreimage K ds' tx' \<longleftrightarrow>
     ds = ds' \<and> K (safeTxStruct K tx) = K (safeTxStruct K tx')"
  by (simp add: safeTxPreimage_def length_word32 word32_eq_iff)

lemma computeSafeTxHash_preimage:
  "computeSafeTxHash K ds tx = K (safeTxPreimage K ds tx)"
  by (simp add: computeSafeTxHash_def safeTxPreimage_def safeTxStruct_def)

section \<open>Digest Engine: determinism and binding\<close>

text \<open>
  C9. \<open>computeSafeTxHash\<close> is a function of the domain separator and the five
  transaction fields: equal inputs give equal commitments. Two inputs that differ in the
  domain separator or in any field give different commitments. The specification's data
  model gives this binding with overwhelming probability, that is, up to collisions of
  the hash function: here it holds whenever the hash function does not collide on the
  pairs of byte sequences the construction hashes for the two inputs (the two payloads,
  the two encoded structs, the two prefixed sequences).
\<close>

theorem computeSafeTxHash_deterministic_and_binding:
  "(ds = ds' \<and> tx = tx' \<longrightarrow> computeSafeTxHash K ds tx = computeSafeTxHash K ds' tx') \<and>
   ((ds \<noteq> ds' \<or> tx \<noteq> tx') \<and>
    no_collision K (data tx) (data tx') \<and>
    no_collision K (safeTxStruct K tx) (safeTxStruct K tx') \<and>
    no_collision K (safeTxPreimage K ds tx) (safeTxPreimage K ds' tx')
    \<longrightarrow> computeSafeTxHash K ds tx \<noteq> computeSafeTxHash K ds' tx')"
proof (intro conjI impI)
  assume "ds = ds' \<and> tx = tx'"
  then show "computeSafeTxHash K ds tx = computeSafeTxHash K ds' tx'" by simp
next
  assume h: "(ds \<noteq> ds' \<or> tx \<noteq> tx') \<and>
    no_collision K (data tx) (data tx') \<and>
    no_collision K (safeTxStruct K tx) (safeTxStruct K tx') \<and>
    no_collision K (safeTxPreimage K ds tx) (safeTxPreimage K ds' tx')"
  show "computeSafeTxHash K ds tx \<noteq> computeSafeTxHash K ds' tx'"
  proof
    assume "computeSafeTxHash K ds tx = computeSafeTxHash K ds' tx'"
    with h have "safeTxPreimage K ds tx = safeTxPreimage K ds' tx'"
      by (simp add: computeSafeTxHash_preimage no_collision_def)
    then have ds: "ds = ds'" and "K (safeTxStruct K tx) = K (safeTxStruct K tx')"
      by (simp_all add: safeTxPreimage_eq_iff)
    with h have "safeTxStruct K tx = safeTxStruct K tx'"
      by (simp add: no_collision_def)
    then have f: "to tx = to tx'" "val tx = val tx'" "K (data tx) = K (data tx')"
        "operation tx = operation tx'" "nonce tx = nonce tx'"
      by (simp_all add: safeTxStruct_eq_iff)
    with h have "data tx = data tx'" by (simp add: no_collision_def)
    with f have "tx = tx'" by (intro txData.equality) simp_all
    with ds h show False by simp
  qed
qed

lemma last_word32: "last (word32 w) = ucast w"
  by (simp add: word32_def last_map upt_rec)

lemma word32_not_Nil: "word32 w \<noteq> []"
  using length_word32 [of w] by auto

lemma demo_struct:
  "demo_keccak256 (safeTxStruct demo_keccak256 (demo_tx n)) = ucast (ucast n :: byte)"
  by (simp add: demo_keccak256_def safeTxStruct_def encodeAbiParameters_def demo_tx_def
        last_word32 word32_not_Nil)

lemma demo_hash:
  "computeSafeTxHash demo_keccak256 ds (demo_tx n) = ucast (ucast (ucast (ucast n :: byte) :: 256 word) :: byte)"
  by (simp add: computeSafeTxHash_preimage safeTxPreimage_def demo_struct)
     (simp add: demo_keccak256_def last_word32 word32_not_Nil)

theorem computeSafeTxHash_deterministic_and_binding_witness:
  "computeSafeTxHash demo_keccak256 0 (demo_tx 1) = computeSafeTxHash demo_keccak256 0 (demo_tx 1) \<and>
   computeSafeTxHash demo_keccak256 0 (demo_tx 1) \<noteq> computeSafeTxHash demo_keccak256 0 (demo_tx 2)"
proof -
  have d: "demo_tx 1 \<noteq> demo_tx 2" by (simp add: demo_tx_def)
  have c1: "no_collision demo_keccak256 (data (demo_tx 1)) (data (demo_tx 2))"
    by (simp add: no_collision_def demo_tx_def)
  have c2: "no_collision demo_keccak256 (safeTxStruct demo_keccak256 (demo_tx 1))
              (safeTxStruct demo_keccak256 (demo_tx 2))"
    by (simp add: no_collision_def demo_struct)
  have c3: "no_collision demo_keccak256 (safeTxPreimage demo_keccak256 0 (demo_tx 1))
              (safeTxPreimage demo_keccak256 0 (demo_tx 2))"
    by (simp add: no_collision_def safeTxPreimage_def demo_struct)
       (simp add: demo_keccak256_def last_word32 word32_not_Nil)
  show ?thesis
    using computeSafeTxHash_deterministic_and_binding
      [of 0 0 "demo_tx 1" "demo_tx 2" demo_keccak256] d c1 c2 c3
    by simp
qed

section \<open>Signature Codec: the recovery byte\<close>

lemma uint8_add_assign_cases:
  "uint8_add_assign raw 64 4 =
     (if length raw < 65 then raw else take 64 raw @ [raw ! 64 + 4] @ drop 65 raw)"
  by (simp add: uint8_add_assign_def upd_conv_take_nth_drop)


lemma then_events_simp [simp]: "then_events ev (out, ev', s) = (out, ev @ ev', s)"
  by (simp add: then_events_def)

lemma submissions_append: "submissions (xs @ ys) = submissions xs @ submissions ys"
  by (induction xs rule: submissions.induct) simp_all

lemma execSafeTx_events:
  "fst (snd (execSafeTx K L account t d op s)) =
     [Signed (word32 (execSafeTx_hash K (safe_domainSeparator L s) t d op (safe_nonce L s))),
      Submitted (execSafeTx_args t d op
        (uint8_add_assign (signMessage account
           (word32 (execSafeTx_hash K (safe_domainSeparator L s) t d op (safe_nonce L s)))) 64 4))]"
  by (simp add: execSafeTx_def Let_def split: prod.splits)

lemma et_fields_execSafeTx_args:
  "et_to (execSafeTx_args t d op sg) = t"
  "et_data (execSafeTx_args t d op sg) = d"
  "et_signatures (execSafeTx_args t d op sg) = sg"
  by (simp_all add: execSafeTx_args_def)










text \<open>
  C5 (amended). The transform never fails, whatever the length of the signature: a
  signature of fewer than 65 bytes is returned unchanged, and a signature of 65 bytes or
  more is returned with byte 64 incremented by 4 (modulo 256) and every other byte, also
  those after byte 64, unchanged. No \<open>EncodingError\<close> is raised.
\<close>

theorem signSafeTxHash_never_fails:
  "signSafeTxHash account digest =
     Inr (if length (signMessage account digest) < 65 then signMessage account digest
          else take 64 (signMessage account digest) @
               [signMessage account digest ! 64 + 4] @
               drop 65 (signMessage account digest))"
  by (simp add: signSafeTxHash_def uint8_add_assign_cases Let_def)

text \<open>
  C5 as the specification states it fails: a signature of three bytes is not rejected;
  it comes back as it is.
\<close>

theorem signSafeTxHash_short_counterexample:
  "length (signMessage short_signer []) \<noteq> 65 \<and>
   signSafeTxHash short_signer [] \<noteq> Inl EncodingError \<and>
   signSafeTxHash short_signer [] = Inr [1, 2, 3]"
  by (simp add: signSafeTxHash_def short_signer_def uint8_add_assign_def)




section \<open>Execution Sequencer: the threshold guard\<close>

text \<open>
  C8. When the threshold read from the chain is greater than 1, \<^verbatim>\<open>main\<close> of the
  configure script exits with an error before anything is signed or submitted: the run
  has no event and leaves the chain state as it was. So a run that signs or submits
  anything has read a threshold of at most 1, which is a threshold of exactly 1 on every
  Safe whose threshold is at least 1 (the deploy script and the threshold command of the
  propose script refuse a threshold below 1).
\<close>

theorem configure_exits_when_threshold_above_one:
  "(1 < getThreshold L s \<longrightarrow>
      configure_main K cfg L s =
        (ProcessExit (if SAFE_ADDRESS cfg = None then NoSafeAddress
                      else if agent_account cfg = None then NoPrivateKey
                      else ThresholdAboveOne), [], s)) \<and>
   (fst (snd (configure_main K cfg L s)) \<noteq> [] \<longrightarrow> getThreshold L s \<le> 1) \<and>
   (fst (snd (configure_main K cfg L s)) \<noteq> [] \<and> 1 \<le> getThreshold L s \<longrightarrow>
      getThreshold L s = 1)"
  by (auto simp: configure_main_def Let_def split: option.splits)

section \<open>Runs on the ledger for concrete runs\<close>

lemma execSafeTx_demo:
  "execSafeTx K (demo_ledger thr rej) acct t d op s =
     (Some (if rej (execSafeTx_args t d op
                (uint8_add_assign (signMessage acct (word32 (execSafeTx_hash K 0 t d op (of_nat s)))) 64 4))
            then reverted else success),
      [Signed (word32 (execSafeTx_hash K 0 t d op (of_nat s))),
       Submitted (execSafeTx_args t d op
         (uint8_add_assign (signMessage acct (word32 (execSafeTx_hash K 0 t d op (of_nat s)))) 64 4))],
      if rej (execSafeTx_args t d op
                (uint8_add_assign (signMessage acct (word32 (execSafeTx_hash K 0 t d op (of_nat s)))) 64 4))
      then s else Suc s)"
  by (simp add: execSafeTx_def demo_ledger_def Let_def)

lemma demo_ledger_reads:
  "getThreshold (demo_ledger thr rej) s = thr"
  "getOwners (demo_ledger thr rej) s = [2, 1]"
  "isModuleEnabled (demo_ledger thr rej) s m = (1 \<le> s)"
  "getDelegates (demo_ledger thr rej) s safe = (if 2 \<le> s then [1] else [])"
  by (simp_all add: demo_ledger_def)

lemma demo_config_fields:
  "SAFE_ADDRESS demo_config = Some 0x5afe"
  "agent_account demo_config = Some demo_account"
  "dryRun demo_config = False"
  "address_of demo_account = 1"
  by (simp_all add: demo_config_def demo_account_def)

lemma rejects_nothing_simp: "rejects_nothing a = False"
  by (simp add: rejects_nothing_def)

theorem configure_exits_when_threshold_above_one_witness:
  "configure_main demo_keccak256 demo_config (demo_ledger 2 rejects_nothing) 0
     = (ProcessExit ThresholdAboveOne, [], 0) \<and>
   fst (snd (configure_main demo_keccak256 demo_config (demo_ledger 1 rejects_nothing) 0)) \<noteq> [] \<and>
   getThreshold (demo_ledger 1 rejects_nothing) 0 = 1"
proof -
  have a: "1 < getThreshold (demo_ledger 2 rejects_nothing) 0"
    by (simp add: demo_ledger_reads)
  have b: "fst (snd (configure_main demo_keccak256 demo_config (demo_ledger 1 rejects_nothing) 0)) \<noteq> []"
    by (simp add: configure_main_def configure_tx1_def demo_ledger_reads demo_config_fields
        execSafeTx_demo rejects_nothing_simp Let_def then_events_def split: prod.splits)
  show ?thesis
    using configure_exits_when_threshold_above_one
      [of "demo_ledger 2 rejects_nothing" 0 demo_keccak256 demo_config]
      configure_exits_when_threshold_above_one
      [of "demo_ledger 1 rejects_nothing" 0 demo_keccak256 demo_config] a b
    by (simp add: demo_config_fields demo_ledger_reads)
qed


section \<open>Execution Sequencer: a second run\<close>

lemmas configure_steps =
  configure_main_def configure_tx1_def configure_tx2_def configure_tx3_def configure_tx4_def

text \<open>
  C2 (amended). On a run that finds the module enabled and the agent registered as
  delegate, as a second run after a fully successful one does, \<open>enableModule\<close> and
  \<open>addDelegate\<close> are skipped by their probes. The two \<open>setAllowance\<close> steps have no
  probe: the run signs and submits \<open>setAllowance\<close> for MOR and then, unless that
  submission throws, \<open>setAllowance\<close> for ETH. It performs two on-chain writes, not none.
\<close>

theorem second_run_resubmits_allowances:
  assumes "SAFE_ADDRESS cfg = Some safe" and "agent_account cfg = Some account"
    and "\<not> 1 < getThreshold L s" and "address_of account \<in> set (getOwners L s)"
    and "\<not> dryRun cfg"
    and "isModuleEnabled L s (ALLOWANCE_MODULE cfg)"
    and "address_of account \<in> set (getDelegates L s safe)"
  shows "map (\<lambda>a. (et_to a, et_data a)) (submissions (fst (snd (configure_main K cfg L s)))) =
           (ALLOWANCE_MODULE cfg, setMorData K cfg (address_of account)) #
           (if fst (execSafeTx K L account (ALLOWANCE_MODULE cfg)
                      (setMorData K cfg (address_of account)) 0 s) = None
            then []
            else [(ALLOWANCE_MODULE cfg, setEthData K cfg (address_of account))])"
proof -
  obtain r3 ev3 s3 where e3:
    "execSafeTx K L account (ALLOWANCE_MODULE cfg) (setMorData K cfg (address_of account)) 0 s
       = (r3, ev3, s3)"
    by (cases "execSafeTx K L account (ALLOWANCE_MODULE cfg) (setMorData K cfg (address_of account)) 0 s")
  obtain r4 ev4 s4 where e4:
    "execSafeTx K L account (ALLOWANCE_MODULE cfg) (setEthData K cfg (address_of account)) 0 s3
       = (r4, ev4, s4)"
    by (cases "execSafeTx K L account (ALLOWANCE_MODULE cfg) (setEthData K cfg (address_of account)) 0 s3")
  have ev3: "map (\<lambda>a. (et_to a, et_data a)) (submissions ev3)
               = [(ALLOWANCE_MODULE cfg, setMorData K cfg (address_of account))]"
    using e3 execSafeTx_events [of K L account "ALLOWANCE_MODULE cfg"
        "setMorData K cfg (address_of account)" 0 s]
    by (simp add: et_fields_execSafeTx_args)
  have ev4: "map (\<lambda>a. (et_to a, et_data a)) (submissions ev4)
               = [(ALLOWANCE_MODULE cfg, setEthData K cfg (address_of account))]"
    using e4 execSafeTx_events [of K L account "ALLOWANCE_MODULE cfg"
        "setEthData K cfg (address_of account)" 0 s3]
    by (simp add: et_fields_execSafeTx_args)
  show ?thesis
    using assms e3 e4 ev3 ev4
    by (simp add: configure_steps Let_def submissions_append split: option.splits)
qed

text \<open>The first run on the fresh demo ledger executes the four steps and leaves state 4.\<close>

lemma demo_first_run:
  "configure_main K demo_config (demo_ledger 1 rejects_nothing) 0 =
     (Completed,
      fst (snd (configure_main K demo_config (demo_ledger 1 rejects_nothing) 0)), 4)"
  by (simp add: configure_steps demo_ledger_reads demo_config_fields execSafeTx_demo
      rejects_nothing_simp Let_def)

lemma demo_first_run_submissions:
  "map et_data (submissions (fst (snd (configure_main K demo_config (demo_ledger 1 rejects_nothing) 0)))) =
     [enableData K demo_config, addDelegateData K 1, setMorData K demo_config 1,
      setEthData K demo_config 1]"
  by (simp add: configure_steps demo_ledger_reads demo_config_fields execSafeTx_demo
      rejects_nothing_simp Let_def et_fields_execSafeTx_args)

text \<open>
  C2 as the specification states it fails: after a first run that completes, a second
  run from the state the first one left submits the two \<open>setAllowance\<close> transactions
  again.
\<close>

theorem second_run_writes_counterexample:
  "fst (configure_main demo_keccak256 demo_config (demo_ledger 1 rejects_nothing) 0) = Completed \<and>
   snd (snd (configure_main demo_keccak256 demo_config (demo_ledger 1 rejects_nothing) 0)) = 4 \<and>
   map et_data (submissions (fst (snd
     (configure_main demo_keccak256 demo_config (demo_ledger 1 rejects_nothing) 4)))) =
     [setMorData demo_keccak256 demo_config 1, setEthData demo_keccak256 demo_config 1]"
  by (simp add: configure_steps demo_ledger_reads demo_config_fields execSafeTx_demo
      rejects_nothing_simp Let_def et_fields_execSafeTx_args)


theorem second_run_resubmits_allowances_witness:
  "map (\<lambda>a. (et_to a, et_data a)) (submissions (fst (snd
     (configure_main demo_keccak256 demo_config (demo_ledger 1 rejects_nothing) 4)))) =
     [(ALLOWANCE_MODULE demo_config, setMorData demo_keccak256 demo_config 1),
      (ALLOWANCE_MODULE demo_config, setEthData demo_keccak256 demo_config 1)]"
  using second_run_resubmits_allowances
    [of demo_config "0x5afe" demo_account "demo_ledger 1 rejects_nothing" 4 demo_keccak256]
  by (simp add: demo_config_fields demo_ledger_reads execSafeTx_demo)

section \<open>Execution Sequencer: a rejected step\<close>

lemma length_selector: "length (take 4 (word32 w)) = 4"
  by (simp add: length_word32)

lemma MOR_TOKEN_word_nonzero: "word32 (ucast MOR_TOKEN) \<noteq> word32 0"
  by (simp add: word32_eq_iff MOR_TOKEN_def)

lemma Nil_neq_word32: "[] \<noteq> word32 w"
  using word32_not_Nil [of w] by auto

lemma rejects_mor_calldata:
  "rejects_mor (execSafeTx_args t (enableData K cfg) op sg) = False"
  "rejects_mor (execSafeTx_args t (addDelegateData K a) op sg) = False"
  "rejects_mor (execSafeTx_args t (setMorData K cfg a) op sg) = True"
  "rejects_mor (execSafeTx_args t (setEthData K cfg a) op sg) = False"
  using MOR_TOKEN_word_nonzero
  by (simp_all add: rejects_mor_def et_fields_execSafeTx_args enableData_def addDelegateData_def
      setMorData_def setEthData_def encodeFunctionData_def encodeAbiParameters_def
      length_word32 Nil_neq_word32 zeroAddress_def eq_commute [of "word32 0"])

text \<open>
  C4. The specification has every rejected step abort the pipeline. The script does so
  for TX 1 and TX 2 only. On the ledger that rejects the MOR allowance, TX 3 gets a
  reverted receipt, and \<^verbatim>\<open>main\<close> still signs and submits TX 4 and runs to completion.
\<close>

theorem configure_continues_after_reverted_TX3:
  "fst (configure_main demo_keccak256 demo_config (demo_ledger 1 rejects_mor) 0) = Completed \<and>
   map et_data (submissions (fst (snd
     (configure_main demo_keccak256 demo_config (demo_ledger 1 rejects_mor) 0)))) =
     [enableData demo_keccak256 demo_config, addDelegateData demo_keccak256 1,
      setMorData demo_keccak256 demo_config 1, setEthData demo_keccak256 demo_config 1] \<and>
   fst (execSafeTx demo_keccak256 (demo_ledger 1 rejects_mor) demo_account
          (ALLOWANCE_MODULE demo_config) (setMorData demo_keccak256 demo_config 1) 0 2)
     = Some reverted"
  by (simp add: configure_steps demo_ledger_reads demo_config_fields execSafeTx_demo
      rejects_mor_calldata Let_def et_fields_execSafeTx_args)

text \<open>
  TX 1 and TX 2 do abort on a reverted receipt; after TX 3, whatever its receipt says,
  the run is that of TX 4.
\<close>

lemma abort_after_reverted_TX1:
  assumes "SAFE_ADDRESS cfg = Some safe" and "agent_account cfg = Some account"
    and "\<not> 1 < getThreshold L s" and "address_of account \<in> set (getOwners L s)"
    and "\<not> dryRun cfg" and "\<not> isModuleEnabled L s (ALLOWANCE_MODULE cfg)"
    and "execSafeTx K L account safe (enableData K cfg) 0 s = (Some reverted, ev, s')"
  shows "configure_main K cfg L s = (ProcessExit EnableModuleReverted, ev, s')"
  using assms by (simp add: configure_steps Let_def)

lemma abort_after_reverted_TX2:
  assumes "address_of account \<notin> set (getDelegates L s safe)"
    and "execSafeTx K L account (ALLOWANCE_MODULE cfg) (addDelegateData K (address_of account)) 0 s
           = (Some reverted, ev, s')"
  shows "configure_tx2 K cfg L account safe s = (ProcessExit AddDelegateReverted, ev, s')"
  using assms by (simp add: configure_steps Let_def)

lemma continue_after_TX3:
  assumes "execSafeTx K L account (ALLOWANCE_MODULE cfg) (setMorData K cfg (address_of account)) 0 s
           = (Some status, ev, s')"
  shows "configure_tx3 K cfg L account safe s = then_events ev (configure_tx4 K cfg L account safe s')"
  using assms by (simp add: configure_tx3_def)

section \<open>Autonomous pulls: what the refill sends\<close>

lemma broadcasts_append: "broadcasts (xs @ ys) = broadcasts xs @ broadcasts ys"
  by (induction xs rule: broadcasts.induct) simp_all

lemma refill_branch_broadcasts:
  "broadcasts (fst (snd (refill_branch L safe hw token bal low amt s))) =
     (if bal < low \<and> uint96_ok amt \<and> estimateGas L (pull_args safe hw token amt) s
      then [pull_args safe hw token amt] else [])"
  by (simp add: refill_branch_def Let_def split: prod.splits)

lemma refill_branch_state:
  "snd (snd (refill_branch L safe hw token bal low amt s)) =
     (if bal < low \<and> uint96_ok amt \<and> estimateGas L (pull_args safe hw token amt) s
      then snd (executeAllowanceTransfer L (pull_args safe hw token amt) s) else s)"
  by (simp add: refill_branch_def Let_def split: prod.splits)

lemma refill_branch_allowance_unread:
  "refill_branch (L\<lparr>getTokenAllowance := g\<rparr>) safe hw token bal low amt s =
   refill_branch L safe hw token bal low amt s"
  by (simp add: refill_branch_def Let_def)

text \<open>
  C3 (amended). The refill computes no remaining allowance: its run is the same whatever
  the allowance tuple reads. For each asset whose balance is below its threshold it hands
  the configured pull to \<^verbatim>\<open>writeContract\<close>, and the transactions it broadcasts are
  exactly the pulls whose amount fits \<^verbatim>\<open>uint96\<close> and whose gas estimation the ledger
  accepts. A pull the estimation refuses, as the allowance module refuses one above the
  remaining allowance, ends as \<^verbatim>\<open>refill failed\<close> with nothing broadcast and the chain
  state unchanged, and the run completes.
\<close>

theorem refill_sends_what_the_ledger_accepts:
  assumes "r_SAFE_ADDRESS cfg = Some safe" and "r_account cfg = Some account"
  shows "fst (refill_main cfg L s) = Completed \<and>
         broadcasts (fst (snd (snd (refill_main cfg L s)))) =
           (if uint (balanceOf_MOR L s (address_of account)) < MOR_LOW_THRESHOLD cfg \<and>
               uint96_ok (MOR_REFILL_AMOUNT cfg) \<and>
               estimateGas L (pull_args safe (address_of account) MOR_TOKEN (MOR_REFILL_AMOUNT cfg)) s
            then [pull_args safe (address_of account) MOR_TOKEN (MOR_REFILL_AMOUNT cfg)]
            else []) @
           (if uint (getBalance L s (address_of account)) < ETH_LOW_THRESHOLD cfg \<and>
               uint96_ok (ETH_REFILL_AMOUNT cfg) \<and>
               estimateGas L (pull_args safe (address_of account) zeroAddress (ETH_REFILL_AMOUNT cfg))
                 (if uint (balanceOf_MOR L s (address_of account)) < MOR_LOW_THRESHOLD cfg \<and>
                     uint96_ok (MOR_REFILL_AMOUNT cfg) \<and>
                     estimateGas L
                       (pull_args safe (address_of account) MOR_TOKEN (MOR_REFILL_AMOUNT cfg)) s
                  then snd (executeAllowanceTransfer L
                         (pull_args safe (address_of account) MOR_TOKEN (MOR_REFILL_AMOUNT cfg)) s)
                  else s)
            then [pull_args safe (address_of account) zeroAddress (ETH_REFILL_AMOUNT cfg)]
            else []) \<and>
         (uint (balanceOf_MOR L s (address_of account)) < MOR_LOW_THRESHOLD cfg \<and>
          uint96_ok (MOR_REFILL_AMOUNT cfg) \<and>
          \<not> estimateGas L (pull_args safe (address_of account) MOR_TOKEN (MOR_REFILL_AMOUNT cfg)) s \<longrightarrow>
            refill_branch L safe (address_of account) MOR_TOKEN
                (uint (balanceOf_MOR L s (address_of account)))
                (MOR_LOW_THRESHOLD cfg) (MOR_REFILL_AMOUNT cfg) s =
              (RefillFailed,
               [Estimated (pull_args safe (address_of account) MOR_TOKEN (MOR_REFILL_AMOUNT cfg))],
               s)) \<and>
         refill_main cfg (L\<lparr>getTokenAllowance := g\<rparr>) s = refill_main cfg L s"
proof -
  let ?hw = "address_of account"
  let ?b1 = "refill_branch L safe ?hw MOR_TOKEN (uint (balanceOf_MOR L s ?hw))
               (MOR_LOW_THRESHOLD cfg) (MOR_REFILL_AMOUNT cfg) s"
  obtain r1 e1 s1 where b1: "?b1 = (r1, e1, s1)" by (cases ?b1)
  let ?b2 = "refill_branch L safe ?hw zeroAddress (uint (getBalance L s ?hw))
               (ETH_LOW_THRESHOLD cfg) (ETH_REFILL_AMOUNT cfg) s1"
  obtain r2 e2 s2 where b2: "?b2 = (r2, e2, s2)" by (cases ?b2)
  have m: "refill_main cfg L s = (Completed, [r1, r2], e1 @ e2, s2)"
    using assms b1 b2 by (simp add: refill_main_def Let_def)
  have e1: "e1 = fst (snd ?b1)" and s1: "s1 = snd (snd ?b1)" using b1 by simp_all
  have e2: "e2 = fst (snd ?b2)" using b2 by simp
  have bc: "broadcasts (e1 @ e2) = broadcasts (fst (snd ?b1)) @ broadcasts (fst (snd ?b2))"
    using e1 e2 by (simp add: broadcasts_append)
  have unread: "refill_main cfg (L\<lparr>getTokenAllowance := g\<rparr>) s = refill_main cfg L s"
    using assms by (simp add: refill_main_def refill_branch_allowance_unread Let_def)
  have refused: "uint (balanceOf_MOR L s ?hw) < MOR_LOW_THRESHOLD cfg \<and>
      uint96_ok (MOR_REFILL_AMOUNT cfg) \<and>
      \<not> estimateGas L (pull_args safe ?hw MOR_TOKEN (MOR_REFILL_AMOUNT cfg)) s \<longrightarrow>
      ?b1 = (RefillFailed, [Estimated (pull_args safe ?hw MOR_TOKEN (MOR_REFILL_AMOUNT cfg))], s)"
    by (simp add: refill_branch_def Let_def)
  show ?thesis
    using refused unread
    by (simp add: m bc refill_branch_broadcasts s1 refill_branch_state)
qed


lemma demo_refill_fields:
  "r_SAFE_ADDRESS demo_refill_config = Some 0x5afe"
  "r_account demo_refill_config = Some demo_account"
  "MOR_LOW_THRESHOLD demo_refill_config = 20000000000000000000"
  "MOR_REFILL_AMOUNT demo_refill_config = 60000000000000000000"
  "ETH_LOW_THRESHOLD demo_refill_config = 10000000000000000"
  "ETH_REFILL_AMOUNT demo_refill_config = 30000000000000000"
  by (simp_all add: demo_refill_config_def)

lemma demo_mor_pull_amount: "unat (at_amount demo_mor_pull) = 60000000000000000000"
  by (simp add: demo_mor_pull_def pull_args_def)

lemma demo_allowance_remaining:
  "unat (ta_amount demo_allowance) - unat (ta_spent demo_allowance) = 50000000000000000000"
  by (simp add: demo_allowance_def)

text \<open>
  C3 as the specification states it fails: the denial is not a local one. With 50 MOR
  granted and nothing spent, the refill of 60 MOR is handed to the ledger. The node that
  estimates on the chain's state refuses it, and nothing is broadcast; the node that
  lags behind the chain accepts the estimation, and the script broadcasts the pull, which
  is mined as reverted.
\<close>

theorem refill_hands_pull_above_allowance_to_ledger:
  "spec_remaining (getTokenAllowance demo_module_ledger 0 0x5afe 1 MOR_TOKEN) 29000100
     < nat (MOR_REFILL_AMOUNT demo_refill_config) \<and>
   refill_main demo_refill_config demo_module_ledger 0 =
     (Completed, [RefillFailed, BalanceOK], [Estimated demo_mor_pull], 0) \<and>
   spec_remaining (getTokenAllowance lagging_module_ledger 0 0x5afe 1 MOR_TOKEN) 29000100
     < nat (MOR_REFILL_AMOUNT demo_refill_config) \<and>
   refill_main demo_refill_config lagging_module_ledger 0 =
     (Completed, [RefillMined reverted, BalanceOK],
      [Estimated demo_mor_pull, Broadcast demo_mor_pull], 0)"
proof -
  have r: "spec_remaining demo_allowance 29000100 < nat (MOR_REFILL_AMOUNT demo_refill_config)"
    by (simp add: spec_remaining_def demo_allowance_def demo_refill_fields)
  have p: "pull_args 0x5afe 1 MOR_TOKEN 60000000000000000000 = demo_mor_pull"
    by (simp add: demo_mor_pull_def)
  have ok: "uint96_ok 60000000000000000000" by (simp add: uint96_ok_def)
  have a: "refill_main demo_refill_config demo_module_ledger 0 =
     (Completed, [RefillFailed, BalanceOK], [Estimated demo_mor_pull], 0)"
    by (simp add: refill_main_def refill_branch_def demo_refill_fields demo_module_ledger_def
        demo_account_def p ok demo_mor_pull_amount demo_allowance_remaining Let_def)
  have b: "refill_main demo_refill_config lagging_module_ledger 0 =
     (Completed, [RefillMined reverted, BalanceOK],
      [Estimated demo_mor_pull, Broadcast demo_mor_pull], 0)"
    by (simp add: refill_main_def refill_branch_def demo_refill_fields lagging_module_ledger_def
        demo_account_def p ok demo_mor_pull_amount demo_allowance_remaining Let_def)
  show ?thesis
    using r a b by (simp add: demo_module_ledger_def lagging_module_ledger_def)
qed

theorem refill_sends_what_the_ledger_accepts_witness:
  "fst (refill_main demo_refill_config demo_module_ledger 0) = Completed \<and>
   broadcasts (fst (snd (snd (refill_main demo_refill_config demo_module_ledger 0)))) = [] \<and>
   refill_branch demo_module_ledger 0x5afe 1 MOR_TOKEN 0 20000000000000000000
     60000000000000000000 0 = (RefillFailed, [Estimated demo_mor_pull], 0)"
proof -
  have bal: "uint (balanceOf_MOR demo_module_ledger 0 1) = 0"
    "uint (getBalance demo_module_ledger 0 1) = 10000000000000000"
    by (simp_all add: demo_module_ledger_def)
  have ok: "uint96_ok 60000000000000000000" by (simp add: uint96_ok_def)
  have p: "pull_args 0x5afe 1 MOR_TOKEN 60000000000000000000 = demo_mor_pull"
    by (simp add: demo_mor_pull_def)
  have est: "\<not> estimateGas demo_module_ledger demo_mor_pull 0"
    by (simp add: demo_module_ledger_def demo_mor_pull_amount demo_allowance_remaining)
  show ?thesis
    using refill_sends_what_the_ledger_accepts
      [of demo_refill_config "0x5afe" demo_account demo_module_ledger 0]
      bal ok est
    by (simp add: demo_refill_fields demo_account_def p)
qed

section \<open>State Reconciler: remaining allowance and reset\<close>

text \<open>
  C7. For every allowance tuple with a non-zero amount and a non-zero last reset, the
  status script reports \<open>remaining = max(0, amount - spent)\<close>, which is 0 when the spent
  amount exceeds the amount, and reports the reset as available exactly when the
  current time in whole minutes is at least \<open>lastResetMin + resetTimeMin\<close>. It only
  reads: the chain state after the report is the state before it.
\<close>

theorem status_reports_remaining_and_reset:
  assumes "ta_amount a \<noteq> 0" and "ta_lastResetMin a \<noteq> 0"
  shows "\<exists>r. allowanceReport a now = Some r \<and>
           int (ar_remaining r) = max 0 (int (unat (ta_amount a)) - int (unat (ta_spent a))) \<and>
           (unat (ta_amount a) < unat (ta_spent a) \<longrightarrow> ar_remaining r = 0) \<and>
           (ar_nextReset r = ResetAvailableNow \<longleftrightarrow>
              unat (ta_lastResetMin a) + unat (ta_resetTimeMin a) \<le> now div 60000) \<and>
           (getTokenAllowance L s safe delegate token = a \<longrightarrow>
              status_allowance L safe delegate token now s = (Some r, s))"
proof -
  have amt: "unat (ta_amount a) \<noteq> 0" using assms(1) by (simp add: unat_eq_0)
  have lst: "unat (ta_lastResetMin a) \<noteq> 0" using assms(2) by (simp add: unat_eq_0)
  have due: "((unat (ta_lastResetMin a) + unat (ta_resetTimeMin a)) * 60 * 1000 \<le> now)
          = (unat (ta_lastResetMin a) + unat (ta_resetTimeMin a) \<le> now div 60000)"
    by (simp add: less_eq_div_iff_mult_less_eq algebra_simps)
  obtain r where r: "allowanceReport a now = Some r"
    and rem: "ar_remaining r =
           (if unat (ta_amount a) < unat (ta_spent a) then 0
            else unat (ta_amount a) - unat (ta_spent a))"
    and nxt: "ar_nextReset r = ResetAvailableNow \<longleftrightarrow>
           (unat (ta_lastResetMin a) + unat (ta_resetTimeMin a)) * 60 * 1000 \<le> now"
    using amt lst by (auto simp: allowanceReport_def Let_def)
  have "int (ar_remaining r) = max 0 (int (unat (ta_amount a)) - int (unat (ta_spent a)))"
    unfolding rem by (simp del: of_nat_unat)
  moreover have "unat (ta_amount a) < unat (ta_spent a) \<longrightarrow> ar_remaining r = 0"
    unfolding rem by simp
  moreover have "ar_nextReset r = ResetAvailableNow \<longleftrightarrow>
      unat (ta_lastResetMin a) + unat (ta_resetTimeMin a) \<le> now div 60000"
    using nxt due by simp
  moreover have "getTokenAllowance L s safe delegate token = a \<longrightarrow>
      status_allowance L safe delegate token now s = (Some r, s)"
    using r by (simp add: status_allowance_def)
  ultimately show ?thesis using r by blast
qed

theorem status_reports_remaining_and_reset_witness:
  "ta_amount demo_spent_allowance \<noteq> 0 \<and> ta_lastResetMin demo_spent_allowance \<noteq> 0 \<and>
   (\<exists>r. allowanceReport demo_spent_allowance 1740086400000 = Some r \<and>
         ar_remaining r = 5 \<and> ar_nextReset r = ResetAvailableNow) \<and>
   (\<exists>r. allowanceReport demo_spent_allowance 1740086399999 = Some r \<and>
         ar_remaining r = 5 \<and> ar_nextReset r \<noteq> ResetAvailableNow)"
proof -
  have a: "ta_amount demo_spent_allowance \<noteq> 0" and l: "ta_lastResetMin demo_spent_allowance \<noteq> 0"
    by (simp_all add: demo_spent_allowance_def)
  have f: "unat (ta_amount demo_spent_allowance) = 50" "unat (ta_spent demo_spent_allowance) = 45"
    "unat (ta_lastResetMin demo_spent_allowance) = 29000000"
    "unat (ta_resetTimeMin demo_spent_allowance) = 1440"
    by (simp_all add: demo_spent_allowance_def)
  obtain r where r: "allowanceReport demo_spent_allowance 1740086400000 = Some r"
    "int (ar_remaining r) = max 0 (int (unat (ta_amount demo_spent_allowance))
        - int (unat (ta_spent demo_spent_allowance)))"
    "ar_nextReset r = ResetAvailableNow \<longleftrightarrow>
       unat (ta_lastResetMin demo_spent_allowance) + unat (ta_resetTimeMin demo_spent_allowance)
         \<le> 1740086400000 div 60000"
    using status_reports_remaining_and_reset [OF a l, of 1740086400000 demo_module_ledger 0 0 0 0]
    by blast
  obtain r' where r': "allowanceReport demo_spent_allowance 1740086399999 = Some r'"
    "int (ar_remaining r') = max 0 (int (unat (ta_amount demo_spent_allowance))
        - int (unat (ta_spent demo_spent_allowance)))"
    "ar_nextReset r' = ResetAvailableNow \<longleftrightarrow>
       unat (ta_lastResetMin demo_spent_allowance) + unat (ta_resetTimeMin demo_spent_allowance)
         \<le> 1740086399999 div 60000"
    using status_reports_remaining_and_reset [OF a l, of 1740086399999 demo_module_ledger 0 0 0 0]
    by blast
  from r f have "ar_remaining r = 5 \<and> ar_nextReset r = ResetAvailableNow" by simp
  moreover from r' f have "ar_remaining r' = 5 \<and> ar_nextReset r' \<noteq> ResetAvailableNow" by simp
  ultimately show ?thesis using a l r(1) r'(1) by simp
qed

end
